theory Spec2Isabelle
  imports Complex_Main
begin

section \<open>Exceptions, outcomes and objects\<close>

text \<open>
  The notebook \<^verbatim>\<open>pythess/descriptors/descriptors.ipynb\<close> is a sequence of small Python 3
  classes that illustrate name mangling and the descriptor protocol. The exceptions its
  code can raise are values of \<open>error\<close>; the argument is the message (or, for a missing
  attribute or key, its name).
\<close>

datatype error =
    ValueError string
  | AttributeError string
  | KeyError string
  | TypeError string
  | RecursionError string

text \<open>
  A statement that mutates an object either completes, leaving the object in state \<open>s\<close>
  (\<open>Done s\<close>), or raises while the object is in state \<open>s\<close> (\<open>Raise e s\<close>). Keeping
  the state at the moment of the raise makes a mutation that happens before an exception
  visible.
\<close>

datatype 's effect = Done 's | Raise error 's

definition then_do :: "'s effect \<Rightarrow> ('s \<Rightarrow> 's effect) \<Rightarrow> 's effect" where
  "then_do r f = (case r of Done s \<Rightarrow> f s | Raise e s \<Rightarrow> Raise e s)"

definition raises_ValueError :: "'s effect \<Rightarrow> bool" where
  "raises_ValueError r = (case r of Raise (ValueError m) s \<Rightarrow> True | _ \<Rightarrow> False)"

text \<open>The state of the object once the statement is over, however it ended.\<close>

definition state_after :: "'s effect \<Rightarrow> 's" where
  "state_after r = (case r of Done s \<Rightarrow> s | Raise e s \<Rightarrow> s)"

text \<open>
  The values the examples store are Python numbers: integers and floats. A float is a
  finite value (modelled by the real it denotes), an infinity or NaN. The validators
  compare a value with the integer \<open>0\<close>: \<open>negative v\<close> is \<^verbatim>\<open>v < 0\<close> and
  \<open>nonnegative v\<close> is \<^verbatim>\<open>v >= 0\<close>. Every comparison with NaN is false, so NaN is
  neither.
\<close>

datatype number = NInt int | NFloat real | NPosInf | NNegInf | NNaN

definition negative :: "number \<Rightarrow> bool" where
  "negative v =
     (case v of
        NInt i \<Rightarrow> i < 0
      | NFloat r \<Rightarrow> r < 0
      | NPosInf \<Rightarrow> False
      | NNegInf \<Rightarrow> True
      | NNaN \<Rightarrow> False)"

definition nonnegative :: "number \<Rightarrow> bool" where
  "nonnegative v =
     (case v of
        NInt i \<Rightarrow> 0 \<le> i
      | NFloat r \<Rightarrow> 0 \<le> r
      | NPosInf \<Rightarrow> True
      | NNegInf \<Rightarrow> False
      | NNaN \<Rightarrow> False)"

text \<open>
  An instance is its \<^verbatim>\<open>__dict__\<close>: a dictionary from attribute names to the stored
  values.
\<close>

type_synonym obj = "string \<rightharpoonup> number"

text \<open>
  A class has a name, the dictionary of its body (an association list: Python dictionaries
  keep insertion order, and \<^verbatim>\<open>named_descriptors\<close> iterates over it) and at most one base
  class, as every class of the notebook. \<open>class_lookup\<close> searches the class and then its
  bases, which is the method resolution order under single inheritance.
\<close>

datatype 'a pyclass =
  PyClass (cname: string) (cdict: "(string \<times> 'a) list") (base: "'a pyclass option")

fun class_lookup :: "'a pyclass \<Rightarrow> string \<Rightarrow> 'a option" where
  "class_lookup (PyClass n d b) x =
     (case map_of d x of
        Some v \<Rightarrow> Some v
      | None \<Rightarrow> (case b of None \<Rightarrow> None | Some c \<Rightarrow> class_lookup c x))"

section \<open>Name mangling: Mapping and MappingSubclass\<close>

text \<open>
  Inside the body of class \<open>classname\<close> an identifier with at least two leading underscores
  and at most one trailing underscore is replaced by \<^verbatim>\<open>_classname__foo\<close>, where the
  class name has its leading underscores stripped (a class name made of underscores only
  leaves the identifier as it is).
\<close>

definition is_private :: "string \<Rightarrow> bool" where
  "is_private name = (take 2 name = ''__'' \<and> take 2 (rev name) \<noteq> ''__'')"

definition mangle :: "string \<Rightarrow> string \<Rightarrow> string" where
  "mangle classname name =
     (let stripped = dropWhile (\<lambda>c. c = CHR ''_'') classname
      in if is_private name \<and> stripped \<noteq> [] then ''_'' @ stripped @ name else name)"

text \<open>
  The items of a \<^verbatim>\<open>Mapping\<close> are arbitrary Python values; the ones the example uses are
  integers, strings and the tuples that \<^verbatim>\<open>zip\<close> builds.
\<close>

datatype pyval = VInt int | VStr string | VTuple "pyval list"

type_synonym mapping_obj = "string \<rightharpoonup> pyval list"

text \<open>\<^verbatim>\<open>self.items_list.append(item)\<close>: reading the attribute fails when it is not set.\<close>

definition append_item :: "mapping_obj \<Rightarrow> pyval \<Rightarrow> mapping_obj effect" where
  "append_item self item =
     (case self ''items_list'' of
        None \<Rightarrow> Raise (AttributeError ''items_list'') self
      | Some l \<Rightarrow> Done (self(''items_list'' \<mapsto> l @ [item])))"

text \<open>\<^verbatim>\<open>for item in iterable: self.items_list.append(item)\<close>, the iterable being a finite list.\<close>

fun append_all :: "mapping_obj \<Rightarrow> pyval list \<Rightarrow> mapping_obj effect" where
  "append_all self [] = Done self"
| "append_all self (item # rest) = then_do (append_item self item) (\<lambda>self'. append_all self' rest)"

definition Mapping_update :: "mapping_obj \<Rightarrow> pyval list \<Rightarrow> mapping_obj effect" where
  "Mapping_update self iterable = append_all self iterable"

definition MappingSubclass_update ::
  "mapping_obj \<Rightarrow> pyval list \<Rightarrow> pyval list \<Rightarrow> mapping_obj effect" where
  "MappingSubclass_update self keys values =
     append_all self (map (\<lambda>(k, v). VTuple [k, v]) (zip keys values))"

text \<open>
  The attributes of the two classes are methods. A method is called with the instance and
  the list of its positional arguments (each an iterable here); a call with the wrong
  number of arguments is Python's \<^verbatim>\<open>TypeError\<close>. \<open>InitMethod\<close> stands for
  \<^verbatim>\<open>Mapping.__init__\<close>, which needs the class of the instance and is defined below.
\<close>

datatype mapping_attr =
    InitMethod
  | Method "mapping_obj \<Rightarrow> pyval list list \<Rightarrow> mapping_obj effect"

definition Mapping_update_method :: "mapping_obj \<Rightarrow> pyval list list \<Rightarrow> mapping_obj effect" where
  "Mapping_update_method self args =
     (case args of
        [iterable] \<Rightarrow> Mapping_update self iterable
      | _ \<Rightarrow> Raise (TypeError ''update() takes 2 positional arguments'') self)"

definition MappingSubclass_update_method ::
  "mapping_obj \<Rightarrow> pyval list list \<Rightarrow> mapping_obj effect" where
  "MappingSubclass_update_method self args =
     (case args of
        [keys, values] \<Rightarrow> MappingSubclass_update self keys values
      | _ \<Rightarrow> Raise (TypeError ''update() takes 3 positional arguments'') self)"

text \<open>
  The class body of \<^verbatim>\<open>Mapping\<close> binds \<^verbatim>\<open>__init__\<close>, \<^verbatim>\<open>update\<close> and, by
  \<^verbatim>\<open>__update = update\<close>, the mangled name to the same function object;
  \<^verbatim>\<open>MappingSubclass\<close> binds only its own \<^verbatim>\<open>update\<close>.
\<close>

definition Mapping :: "mapping_attr pyclass" where
  "Mapping = PyClass ''Mapping''
     [(''__init__'', InitMethod),
      (''update'', Method Mapping_update_method),
      (mangle ''Mapping'' ''__update'', Method Mapping_update_method)]
     None"

definition MappingSubclass :: "mapping_attr pyclass" where
  "MappingSubclass = PyClass ''MappingSubclass''
     [(''update'', Method MappingSubclass_update_method)]
     (Some Mapping)"

text \<open>
  \<^verbatim>\<open>Mapping.__init__\<close>, for an instance of class \<open>cls\<close>: it sets \<^verbatim>\<open>items_list\<close> and
  calls \<^verbatim>\<open>self.__update(iterable)\<close>, the name being mangled for the class \<^verbatim>\<open>Mapping\<close>
  the text stands in. Methods are not data descriptors, so an entry of that name in the
  instance's \<^verbatim>\<open>__dict__\<close> would come first (it holds a list, which cannot be called);
  otherwise the method is found in the classes. Were the name bound to \<^verbatim>\<open>__init__\<close>
  itself, the call would recurse until Python raises \<^verbatim>\<open>RecursionError\<close>.
\<close>

definition Mapping_init ::
  "mapping_attr pyclass \<Rightarrow> mapping_obj \<Rightarrow> pyval list \<Rightarrow> mapping_obj effect" where
  "Mapping_init cls self iterable =
     (let self' = self(''items_list'' \<mapsto> []);
          name = mangle ''Mapping'' ''__update''
      in case self' name of
           Some l \<Rightarrow> Raise (TypeError ''list object is not callable'') self'
         | None \<Rightarrow>
             (case class_lookup cls name of
                None \<Rightarrow> Raise (AttributeError name) self'
              | Some InitMethod \<Rightarrow>
                  Raise (RecursionError ''maximum recursion depth exceeded'') self'
              | Some (Method m) \<Rightarrow> m self' [iterable]))"

text \<open>
  Calling the class: a fresh instance with an empty \<^verbatim>\<open>__dict__\<close> is passed to the
  \<^verbatim>\<open>__init__\<close> found in the class or its bases. Without one, \<^verbatim>\<open>object.__init__\<close>
  accepts no argument.
\<close>

definition new_mapping :: "mapping_attr pyclass \<Rightarrow> pyval list list \<Rightarrow> mapping_obj effect" where
  "new_mapping cls args =
     (case class_lookup cls ''__init__'' of
        None \<Rightarrow> (if args = [] then Done Map.empty
                 else Raise (TypeError ''object() takes no parameters'') Map.empty)
      | Some InitMethod \<Rightarrow>
          (case args of
             [iterable] \<Rightarrow> Mapping_init cls Map.empty iterable
           | _ \<Rightarrow> Raise (TypeError ''__init__() takes 2 positional arguments'') Map.empty)
      | Some (Method m) \<Rightarrow> m Map.empty args)"

text \<open>
  Calling a method on an instance of \<open>cls\<close> by name, as \<^verbatim>\<open>ms.update([3, 4], [...])\<close>,
  with the same lookup order.
\<close>

definition call_method ::
  "mapping_attr pyclass \<Rightarrow> mapping_obj \<Rightarrow> string \<Rightarrow> pyval list list \<Rightarrow> mapping_obj effect" where
  "call_method cls self name args =
     (case self name of
        Some l \<Rightarrow> Raise (TypeError ''list object is not callable'') self
      | None \<Rightarrow>
          (case class_lookup cls name of
             None \<Rightarrow> Raise (AttributeError name) self
           | Some InitMethod \<Rightarrow>
               (case args of
                  [iterable] \<Rightarrow> Mapping_init cls self iterable
                | _ \<Rightarrow> Raise (TypeError ''__init__() takes 2 positional arguments'') self)
           | Some (Method m) \<Rightarrow> m self args))"

section \<open>The descriptor classes\<close>

subsection \<open>MyClassmethod and MyStaticmethod\<close>

text \<open>
  A Python function is called with positional arguments \<^verbatim>\<open>*args\<close> (a list) and keyword
  arguments \<^verbatim>\<open>**kwargs\<close>. \<^verbatim>\<open>MyClassmethod.__get__\<close> returns the closure
  \<^verbatim>\<open>cls_wrapper\<close>, which calls \<^verbatim>\<open>self.func(owner, *args, **kwargs)\<close>;
  \<^verbatim>\<open>MyStaticmethod.__get__\<close> returns \<^verbatim>\<open>self.func\<close>.
\<close>

record ('a, 'k, 'r) MyClassmethod =
  func :: "'a list \<Rightarrow> 'k \<Rightarrow> 'r"

definition MyClassmethod_init :: "('a list \<Rightarrow> 'k \<Rightarrow> 'r) \<Rightarrow> ('a, 'k, 'r) MyClassmethod" where
  "MyClassmethod_init f = \<lparr>MyClassmethod.func = f\<rparr>"

definition MyClassmethod_get ::
  "('a, 'k, 'r) MyClassmethod \<Rightarrow> 'i option \<Rightarrow> 'a \<Rightarrow> ('a list \<Rightarrow> 'k \<Rightarrow> 'r)" where
  "MyClassmethod_get self instance owner =
     (\<lambda>args kwargs. MyClassmethod.func self (owner # args) kwargs)"

record 'f MyStaticmethod =
  func :: 'f

definition MyStaticmethod_init :: "'f \<Rightarrow> 'f MyStaticmethod" where
  "MyStaticmethod_init f = \<lparr>MyStaticmethod.func = f\<rparr>"

definition MyStaticmethod_get :: "'f MyStaticmethod \<Rightarrow> 'i option \<Rightarrow> 'c \<Rightarrow> 'f" where
  "MyStaticmethod_get self instance owner = MyStaticmethod.func self"

subsection \<open>MyProperty\<close>

text \<open>
  The three backing functions are optional (\<^verbatim>\<open>None\<close> by default). The wrapper does not
  look at what they return: \<open>'g\<close>, \<open>'s\<close> and \<open>'d\<close> are the outcomes of calling
  \<^verbatim>\<open>fget(instance)\<close>, \<^verbatim>\<open>fset(instance, value)\<close> and \<^verbatim>\<open>fdel(instance)\<close>, an exception
  raised inside them included. An \<open>Inl\<close> result of an accessor is an exception raised by
  the wrapper's own \<^verbatim>\<open>raise\<close> statement; \<open>Inr\<close> carries what the wrapper hands back:
  itself (\<open>Descriptor\<close>) or the outcome of the call (\<open>Outcome\<close>).
\<close>

record ('i, 'v, 'g, 's, 'd) MyProperty =
  fget :: "('i \<Rightarrow> 'g) option"
  fset :: "('i \<Rightarrow> 'v \<Rightarrow> 's) option"
  fdel :: "('i \<Rightarrow> 'd) option"

datatype ('p, 'g) accessed = Descriptor 'p | Outcome 'g

definition MyProperty_init ::
  "('i \<Rightarrow> 'g) option \<Rightarrow> ('i \<Rightarrow> 'v \<Rightarrow> 's) option \<Rightarrow> ('i \<Rightarrow> 'd) option
     \<Rightarrow> ('i, 'v, 'g, 's, 'd) MyProperty" where
  "MyProperty_init g s d = \<lparr>fget = g, fset = s, fdel = d\<rparr>"

definition MyProperty_get ::
  "('i, 'v, 'g, 's, 'd) MyProperty \<Rightarrow> 'i option \<Rightarrow> 'c
     \<Rightarrow> error + (('i, 'v, 'g, 's, 'd) MyProperty, 'g) accessed" where
  "MyProperty_get self instance owner =
     (case instance of
        None \<Rightarrow> Inr (Descriptor self)
      | Some a \<Rightarrow> (case fget self of
                    None \<Rightarrow> Inl (AttributeError ''unreadable attribute'')
                  | Some g \<Rightarrow> Inr (Outcome (g a))))"

definition MyProperty_set :: "('i, 'v, 'g, 's, 'd) MyProperty \<Rightarrow> 'i \<Rightarrow> 'v \<Rightarrow> error + 's" where
  "MyProperty_set self instance value =
     (case fset self of
        None \<Rightarrow> Inl (AttributeError ''can't set attribute'')
      | Some s \<Rightarrow> Inr (s instance value))"

definition MyProperty_delete :: "('i, 'v, 'g, 's, 'd) MyProperty \<Rightarrow> 'i \<Rightarrow> error + 'd" where
  "MyProperty_delete self instance =
     (case fdel self of
        None \<Rightarrow> Inl (AttributeError ''can't delete attribute'')
      | Some d \<Rightarrow> Inr (d instance))"

text \<open>\<^verbatim>\<open>getter\<close>, \<^verbatim>\<open>setter\<close> and \<^verbatim>\<open>deleter\<close> build a new property with one function replaced.\<close>

definition MyProperty_getter ::
  "('i, 'v, 'g, 's, 'd) MyProperty \<Rightarrow> ('i \<Rightarrow> 'g) \<Rightarrow> ('i, 'v, 'g, 's, 'd) MyProperty" where
  "MyProperty_getter self g = MyProperty_init (Some g) (fset self) (fdel self)"

definition MyProperty_setter ::
  "('i, 'v, 'g, 's, 'd) MyProperty \<Rightarrow> ('i \<Rightarrow> 'v \<Rightarrow> 's) \<Rightarrow> ('i, 'v, 'g, 's, 'd) MyProperty" where
  "MyProperty_setter self s = MyProperty_init (fget self) (Some s) (fdel self)"

definition MyProperty_deleter ::
  "('i, 'v, 'g, 's, 'd) MyProperty \<Rightarrow> ('i \<Rightarrow> 'd) \<Rightarrow> ('i, 'v, 'g, 's, 'd) MyProperty" where
  "MyProperty_deleter self d = MyProperty_init (fget self) (fset self) (Some d)"

subsection \<open>NonNegativeField\<close>

text \<open>
  The descriptor stores the name of the \<^verbatim>\<open>__dict__\<close> slot it reads and writes; the
  default name is the empty string. \<^verbatim>\<open>__get__\<close> reads \<^verbatim>\<open>instance.__dict__[self.field]\<close>:
  a missing key is a \<^verbatim>\<open>KeyError\<close>, and on access from the class the instance is
  \<^verbatim>\<open>None\<close>, which has no \<^verbatim>\<open>__dict__\<close>.
\<close>

record NonNegativeField =
  field :: string

definition NonNegativeField_init :: "string \<Rightarrow> NonNegativeField" where
  "NonNegativeField_init name = \<lparr>field = name\<rparr>"

definition NonNegativeField_default :: NonNegativeField where
  "NonNegativeField_default = NonNegativeField_init []"

definition NonNegativeField_get :: "NonNegativeField \<Rightarrow> obj option \<Rightarrow> 'c \<Rightarrow> error + number" where
  "NonNegativeField_get self instance owner =
     (case instance of
        None \<Rightarrow> Inl (AttributeError ''__dict__'')
      | Some d \<Rightarrow> (case d (field self) of
                    None \<Rightarrow> Inl (KeyError (field self))
                  | Some v \<Rightarrow> Inr v))"

definition NonNegativeField_set :: "NonNegativeField \<Rightarrow> obj \<Rightarrow> number \<Rightarrow> obj effect" where
  "NonNegativeField_set self instance value =
     (if negative value then Raise (ValueError ''Positive values only!'') instance
      else Done (instance(field self \<mapsto> value)))"

section \<open>Attribute access\<close>

text \<open>
  A function receives its positional arguments as a list of \<open>arg\<close> (a class, by name; an
  instance; a number; a string; \<^verbatim>\<open>None\<close>) and its keyword arguments as an association
  list. It returns such a value or raises.
\<close>

datatype arg = ACls string | AObj obj | ANum number | AStr string | ANone

type_synonym kwargs = "(string \<times> arg) list"

type_synonym pyfun = "arg list \<Rightarrow> kwargs \<Rightarrow> error + arg"

text \<open>
  The objects a class body of the notebook binds, and the objects an attribute access can
  return: numbers, strings, \<^verbatim>\<open>None\<close>, functions, and instances of the four descriptor
  classes. \<open>PyOther\<close> is any other object, named by a label; nothing is known about it but
  that it is not an instance of one of the four classes (the examples use it for the
  function object bound to \<^verbatim>\<open>__init__\<close>, whose call is modelled by a function of its own).
\<close>

datatype pyobj =
    PyNum number
  | PyStr string
  | PyNone
  | PyOther string
  | PyFun "pyfun"
  | PyField NonNegativeField
  | PyProp "(obj, number, error + number, obj effect, obj effect) MyProperty"
  | PyClassM "(arg, kwargs, error + arg) MyClassmethod"
  | PyStaticM "pyfun MyStaticmethod"

text \<open>
  A data descriptor defines \<^verbatim>\<open>__set__\<close> or \<^verbatim>\<open>__delete__\<close>: \<^verbatim>\<open>NonNegativeField\<close> (which
  defines \<^verbatim>\<open>__get__\<close> and \<^verbatim>\<open>__set__\<close>) and \<^verbatim>\<open>MyProperty\<close> (all three).
  \<^verbatim>\<open>MyClassmethod\<close>, \<^verbatim>\<open>MyStaticmethod\<close> and plain functions define \<^verbatim>\<open>__get__\<close> only.
\<close>

definition is_data_descriptor :: "pyobj \<Rightarrow> bool" where
  "is_data_descriptor d = (case d of PyField f \<Rightarrow> True | PyProp p \<Rightarrow> True | _ \<Rightarrow> False)"

text \<open>
  \<^verbatim>\<open>d.__get__(instance, owner)\<close> for an object \<open>d\<close> found in a class, or \<open>d\<close> itself when
  it has no \<^verbatim>\<open>__get__\<close>. An exception of a property's backing function propagates. A
  plain function binds the instance as its first argument.
\<close>

definition descr_get :: "pyobj \<Rightarrow> obj option \<Rightarrow> string \<Rightarrow> error + pyobj" where
  "descr_get d instance owner =
     (case d of
        PyField f \<Rightarrow>
          (case NonNegativeField_get f instance owner of
             Inl e \<Rightarrow> Inl e
           | Inr v \<Rightarrow> Inr (PyNum v))
      | PyProp p \<Rightarrow>
          (case MyProperty_get p instance owner of
             Inl e \<Rightarrow> Inl e
           | Inr (Descriptor q) \<Rightarrow> Inr (PyProp q)
           | Inr (Outcome r) \<Rightarrow> (case r of Inl e \<Rightarrow> Inl e | Inr v \<Rightarrow> Inr (PyNum v)))
      | PyClassM m \<Rightarrow> Inr (PyFun (MyClassmethod_get m instance (ACls owner)))
      | PyStaticM m \<Rightarrow> Inr (PyFun (MyStaticmethod_get m instance owner))
      | PyFun f \<Rightarrow>
          (case instance of
             None \<Rightarrow> Inr (PyFun f)
           | Some a \<Rightarrow> Inr (PyFun (\<lambda>args kwargs. f (AObj a # args) kwargs)))
      | _ \<Rightarrow> Inr d)"

text \<open>
  Reading \<^verbatim>\<open>a.x\<close> on an instance \<open>a\<close> of class \<open>cls\<close>, in the order the notebook gives:
  a data descriptor of the class (up the MRO) first, then the instance's \<^verbatim>\<open>__dict__\<close>,
  then any other class attribute, then \<^verbatim>\<open>AttributeError\<close>. No class modelled here defines
  \<^verbatim>\<open>__getattr__\<close>.
\<close>

definition getattr_inst :: "pyobj pyclass \<Rightarrow> obj \<Rightarrow> string \<Rightarrow> error + pyobj" where
  "getattr_inst cls a x =
     (case class_lookup cls x of
        Some d \<Rightarrow>
          if is_data_descriptor d then descr_get d (Some a) (cname cls)
          else (case a x of
                  Some v \<Rightarrow> Inr (PyNum v)
                | None \<Rightarrow> descr_get d (Some a) (cname cls))
      | None \<Rightarrow>
          (case a x of
             Some v \<Rightarrow> Inr (PyNum v)
           | None \<Rightarrow> Inl (AttributeError x)))"

text \<open>Reading \<^verbatim>\<open>A.x\<close> on the class: \<^verbatim>\<open>A.__dict__['x'].__get__(None, A)\<close>.\<close>

definition getattr_class :: "pyobj pyclass \<Rightarrow> string \<Rightarrow> error + pyobj" where
  "getattr_class cls x =
     (case class_lookup cls x of
        Some d \<Rightarrow> descr_get d None (cname cls)
      | None \<Rightarrow> Inl (AttributeError x))"

text \<open>
  Calling what an attribute access returned, as in \<^verbatim>\<open>A.bar(args)\<close>: an exception of the
  access propagates, and only functions can be called.
\<close>

definition call_attr :: "error + pyobj \<Rightarrow> arg list \<Rightarrow> kwargs \<Rightarrow> error + arg" where
  "call_attr r args kwargs =
     (case r of
        Inl e \<Rightarrow> Inl e
      | Inr (PyFun f) \<Rightarrow> f args kwargs
      | Inr _ \<Rightarrow> Inl (TypeError ''object is not callable''))"

text \<open>
  \<^verbatim>\<open>a.x = value\<close> is \<^verbatim>\<open>type(a).__dict__['x'].__set__(a, value)\<close> when the class has a
  data descriptor at \<open>x\<close>, and a store into the instance's \<^verbatim>\<open>__dict__\<close> otherwise. When
  the property itself raises, the instance is as it was.
\<close>

definition setattr_inst :: "pyobj pyclass \<Rightarrow> obj \<Rightarrow> string \<Rightarrow> number \<Rightarrow> obj effect" where
  "setattr_inst cls a x value =
     (case class_lookup cls x of
        Some (PyField f) \<Rightarrow> NonNegativeField_set f a value
      | Some (PyProp p) \<Rightarrow>
          (case MyProperty_set p a value of
             Inl e \<Rightarrow> Raise e a
           | Inr r \<Rightarrow> r)
      | _ \<Rightarrow> Done (a(x \<mapsto> value)))"

text \<open>
  \<^verbatim>\<open>del a.x\<close> is \<^verbatim>\<open>type(a).__dict__['x'].__delete__(a)\<close> for a data descriptor;
  \<^verbatim>\<open>NonNegativeField\<close> defines no \<^verbatim>\<open>__delete__\<close>. Otherwise the entry is removed from the
  instance's \<^verbatim>\<open>__dict__\<close>.
\<close>

definition delattr_inst :: "pyobj pyclass \<Rightarrow> obj \<Rightarrow> string \<Rightarrow> obj effect" where
  "delattr_inst cls a x =
     (case class_lookup cls x of
        Some (PyProp p) \<Rightarrow>
          (case MyProperty_delete p a of
             Inl e \<Rightarrow> Raise e a
           | Inr r \<Rightarrow> r)
      | Some (PyField f) \<Rightarrow> Raise (AttributeError ''__delete__'') a
      | _ \<Rightarrow>
          (case a x of
             None \<Rightarrow> Raise (AttributeError x) a
           | Some v \<Rightarrow> Done (a(x := None))))"

section \<open>The example classes\<close>

subsection \<open>Class A with a class method and a static method\<close>

text \<open>
  The three functions of the class print one value; the model returns the value printed.
  \<^verbatim>\<open>foo(self)\<close> and \<^verbatim>\<open>bar(cls)\<close> take one positional argument, \<^verbatim>\<open>baz()\<close> none.
\<close>

definition A_foo :: "pyfun" where
  "A_foo args kwargs =
     (case (args, kwargs) of
        ([self], []) \<Rightarrow> Inr self
      | _ \<Rightarrow> Inl (TypeError ''foo() takes 1 positional argument''))"

definition A_bar :: "pyfun" where
  "A_bar args kwargs =
     (case (args, kwargs) of
        ([cls], []) \<Rightarrow> Inr cls
      | _ \<Rightarrow> Inl (TypeError ''bar() takes 1 positional argument''))"

definition A_baz :: "pyfun" where
  "A_baz args kwargs =
     (case (args, kwargs) of
        ([], []) \<Rightarrow> Inr (AStr ''nothing'')
      | _ \<Rightarrow> Inl (TypeError ''baz() takes 0 positional arguments''))"

definition A_methods :: "pyobj pyclass" where
  "A_methods = PyClass ''A''
     [(''foo'', PyFun A_foo),
      (''bar'', PyClassM (MyClassmethod_init A_bar)),
      (''baz'', PyStaticM (MyStaticmethod_init A_baz))]
     None"

subsection \<open>Class A with the property x\<close>

text \<open>
  \<^verbatim>\<open>@MyProperty def x\<close> binds \<open>x\<close> to \<^verbatim>\<open>MyProperty(x)\<close>, and \<^verbatim>\<open>@x.setter def x\<close>
  rebinds it to \<^verbatim>\<open>x.setter(x)\<close>. The getter and the setter also print a line, which
  the model leaves out.
\<close>

definition A_x :: "obj \<Rightarrow> error + number" where
  "A_x self = (case self ''_x'' of None \<Rightarrow> Inl (AttributeError ''_x'') | Some v \<Rightarrow> Inr v)"

definition A_x_setter :: "obj \<Rightarrow> number \<Rightarrow> obj effect" where
  "A_x_setter self value = Done (self(''_x'' \<mapsto> value))"

definition A_property :: "pyobj pyclass" where
  "A_property = PyClass ''A''
     [(''__init__'', PyOther ''A.__init__''),
      (''x'', PyProp (MyProperty_setter (MyProperty_init (Some A_x) None None) A_x_setter))]
     None"

definition A_init :: "pyobj pyclass \<Rightarrow> obj \<Rightarrow> number \<Rightarrow> obj effect" where
  "A_init cls self x = setattr_inst cls self ''_x'' x"

subsection \<open>BasketballGame, with properties\<close>

text \<open>
  \<^verbatim>\<open>BasketballGame\<close> uses the built-in \<^verbatim>\<open>property\<close>, which the notebook implements as
  \<^verbatim>\<open>MyProperty\<close>. Each getter reads the underscored attribute and each setter checks the
  value before it stores it.
\<close>

definition BasketballGame_points :: "obj \<Rightarrow> error + number" where
  "BasketballGame_points self =
     (case self ''_points'' of None \<Rightarrow> Inl (AttributeError ''_points'') | Some v \<Rightarrow> Inr v)"

definition BasketballGame_points_setter :: "obj \<Rightarrow> number \<Rightarrow> obj effect" where
  "BasketballGame_points_setter self value =
     (if negative value then Raise (ValueError ''Positive values only!'') self
      else Done (self(''_points'' \<mapsto> value)))"

definition BasketballGame_rebounds :: "obj \<Rightarrow> error + number" where
  "BasketballGame_rebounds self =
     (case self ''_rebounds'' of None \<Rightarrow> Inl (AttributeError ''_rebounds'') | Some v \<Rightarrow> Inr v)"

definition BasketballGame_rebounds_setter :: "obj \<Rightarrow> number \<Rightarrow> obj effect" where
  "BasketballGame_rebounds_setter self value =
     (if negative value then Raise (ValueError ''Positive values only!'') self
      else Done (self(''_rebounds'' \<mapsto> value)))"

definition BasketballGame_steals :: "obj \<Rightarrow> error + number" where
  "BasketballGame_steals self =
     (case self ''_steals'' of None \<Rightarrow> Inl (AttributeError ''_steals'') | Some v \<Rightarrow> Inr v)"

definition BasketballGame_steals_setter :: "obj \<Rightarrow> number \<Rightarrow> obj effect" where
  "BasketballGame_steals_setter self value =
     (if negative value then Raise (ValueError ''Positive values only!'') self
      else Done (self(''_steals'' \<mapsto> value)))"

definition BasketballGame :: "pyobj pyclass" where
  "BasketballGame = PyClass ''BasketballGame''
     [(''__init__'', PyOther ''BasketballGame.__init__''),
      (''points'', PyProp (MyProperty_setter
          (MyProperty_init (Some BasketballGame_points) None None) BasketballGame_points_setter)),
      (''rebounds'', PyProp (MyProperty_setter
          (MyProperty_init (Some BasketballGame_rebounds) None None) BasketballGame_rebounds_setter)),
      (''steals'', PyProp (MyProperty_setter
          (MyProperty_init (Some BasketballGame_steals) None None) BasketballGame_steals_setter))]
     None"

definition BasketballGame_init ::
  "pyobj pyclass \<Rightarrow> obj \<Rightarrow> number \<Rightarrow> number \<Rightarrow> number \<Rightarrow> number \<Rightarrow> obj effect" where
  "BasketballGame_init cls self points rebounds steals blocks =
     then_do (setattr_inst cls self ''points'' points) (\<lambda>self.
     then_do (setattr_inst cls self ''rebounds'' rebounds) (\<lambda>self.
     then_do (setattr_inst cls self ''steals'' steals) (\<lambda>self.
     setattr_inst cls self ''blocks'' blocks)))"

subsection \<open>BasketballGameA and BasketballGameB, with NonNegativeField\<close>

definition BasketballGameA :: "pyobj pyclass" where
  "BasketballGameA = PyClass ''BasketballGameA''
     [(''__module__'', PyStr ''__main__''),
      (''points'', PyField (NonNegativeField_init ''points'')),
      (''rebounds'', PyField (NonNegativeField_init ''rebounds'')),
      (''steals'', PyField (NonNegativeField_init ''steals'')),
      (''__init__'', PyOther ''BasketballGameA.__init__''),
      (''__doc__'', PyNone)]
     None"

definition BasketballGameA_init ::
  "pyobj pyclass \<Rightarrow> obj \<Rightarrow> number \<Rightarrow> number \<Rightarrow> number \<Rightarrow> obj effect" where
  "BasketballGameA_init cls self points rebounds steals =
     then_do (setattr_inst cls self ''points'' points) (\<lambda>self.
     then_do (setattr_inst cls self ''rebounds'' rebounds) (\<lambda>self.
     setattr_inst cls self ''steals'' steals))"

text \<open>
  \<^verbatim>\<open>named_descriptors\<close> goes through the class's own dictionary and sets the
  \<^verbatim>\<open>field\<close> of every \<^verbatim>\<open>NonNegativeField\<close> to the name it is bound to. The descriptors
  are values of the dictionary here; in Python they are objects changed in place, which
  is the same as long as no descriptor object is bound twice, as in \<^verbatim>\<open>BasketballGameB\<close>.
\<close>

definition named_descriptors :: "pyobj pyclass \<Rightarrow> pyobj pyclass" where
  "named_descriptors cls =
     PyClass (cname cls)
       (map (\<lambda>(name, attr).
               (name, case attr of PyField f \<Rightarrow> PyField (f\<lparr>field := name\<rparr>) | _ \<Rightarrow> attr))
            (cdict cls))
       (base cls)"

definition BasketballGameB_body :: "pyobj pyclass" where
  "BasketballGameB_body = PyClass ''BasketballGameB''
     [(''__module__'', PyStr ''__main__''),
      (''points'', PyField NonNegativeField_default),
      (''rebounds'', PyField NonNegativeField_default),
      (''steals'', PyField NonNegativeField_default),
      (''__init__'', PyOther ''BasketballGameB.__init__''),
      (''__doc__'', PyNone)]
     None"

definition BasketballGameB :: "pyobj pyclass" where
  "BasketballGameB = named_descriptors BasketballGameB_body"

definition BasketballGameB_init ::
  "pyobj pyclass \<Rightarrow> obj \<Rightarrow> number \<Rightarrow> number \<Rightarrow> number \<Rightarrow> obj effect" where
  "BasketballGameB_init cls self points rebounds steals =
     then_do (setattr_inst cls self ''points'' points) (\<lambda>self.
     then_do (setattr_inst cls self ''rebounds'' rebounds) (\<lambda>self.
     setattr_inst cls self ''steals'' steals))"

text \<open>The three validated fields, and the invariant of an instance's \<^verbatim>\<open>__dict__\<close>.\<close>

definition score_fields :: "string set" where
  "score_fields = {''points'', ''rebounds'', ''steals''}"

definition no_negative_fields :: "obj \<Rightarrow> bool" where
  "no_negative_fields a = (\<forall>x \<in> score_fields. \<forall>v. a x = Some v \<longrightarrow> \<not> negative v)"

text \<open>
  The instances that exist: the ones a call of the class returned, the partly initialised
  ones a raising \<^verbatim>\<open>__init__\<close> left behind, and the ones left by an assignment to one of
  the three fields, whether it completed or raised and was caught.
\<close>

inductive reachable ::
  "pyobj pyclass \<Rightarrow> (pyobj pyclass \<Rightarrow> obj \<Rightarrow> number \<Rightarrow> number \<Rightarrow> number \<Rightarrow> obj effect) \<Rightarrow> obj \<Rightarrow> bool"
  for cls init where
    constructed: "init cls Map.empty points rebounds steals = Done a \<Longrightarrow> reachable cls init a"
  | abandoned: "init cls Map.empty points rebounds steals = Raise e a \<Longrightarrow> reachable cls init a"
  | assigned: "reachable cls init a \<Longrightarrow> x \<in> score_fields \<Longrightarrow> setattr_inst cls a x v = Done a'
       \<Longrightarrow> reachable cls init a'"
  | rejected: "reachable cls init a \<Longrightarrow> x \<in> score_fields \<Longrightarrow> setattr_inst cls a x v = Raise e a'
       \<Longrightarrow> reachable cls init a'"

text \<open>
  What a program observes of a class: whether the construction raised, and then the result
  of each read and each write of the sequence.
\<close>

datatype operation = Read string | Write string number

fun attr_of :: "operation \<Rightarrow> string" where
  "attr_of (Read x) = x"
| "attr_of (Write x v) = x"

datatype observation =
    Constructed
  | Got "error + pyobj"
  | Written
  | Raised error

fun run :: "pyobj pyclass \<Rightarrow> obj \<Rightarrow> operation list \<Rightarrow> observation list" where
  "run cls a [] = []"
| "run cls a (Read x # ops) = Got (getattr_inst cls a x) # run cls a ops"
| "run cls a (Write x v # ops) =
     (case setattr_inst cls a x v of
        Done a' \<Rightarrow> Written # run cls a' ops
      | Raise e a' \<Rightarrow> Raised e # run cls a' ops)"

definition session ::
  "pyobj pyclass \<Rightarrow> (pyobj pyclass \<Rightarrow> obj \<Rightarrow> number \<Rightarrow> number \<Rightarrow> number \<Rightarrow> obj effect)
     \<Rightarrow> number \<Rightarrow> number \<Rightarrow> number \<Rightarrow> operation list \<Rightarrow> observation list" where
  "session cls init points rebounds steals ops =
     (case init cls Map.empty points rebounds steals of
        Done a \<Rightarrow> Constructed # run cls a ops
      | Raise e a \<Rightarrow> [Raised e])"

section \<open>Properties of the validated fields\<close>

subsection \<open>Comparing with zero\<close>

text \<open>
  On integers the two comparisons are the order of the integers. A number that is
  \<^verbatim>\<open>>= 0\<close> is not \<^verbatim>\<open>< 0\<close>; the converse fails for NaN only.
\<close>

lemma negative_NInt: "negative (NInt i) \<longleftrightarrow> i < 0"
  by (simp add: negative_def)

lemma nonnegative_NInt: "nonnegative (NInt i) \<longleftrightarrow> 0 \<le> i"
  by (simp add: nonnegative_def)

lemma nonnegative_iff: "nonnegative v \<longleftrightarrow> \<not> negative v \<and> v \<noteq> NNaN"
  by (cases v) (auto simp: nonnegative_def negative_def)

lemma NaN_neither: "\<not> negative NNaN" "\<not> nonnegative NNaN"
  by (simp_all add: negative_def nonnegative_def)

subsection \<open>Looking the descriptors up\<close>

lemma lookup_A_field:
  "x \<in> score_fields \<Longrightarrow> class_lookup BasketballGameA x = Some (PyField \<lparr>field = x\<rparr>)"
  by (auto simp: score_fields_def BasketballGameA_def NonNegativeField_init_def)

text \<open>After the decorator has run, each field of \<^verbatim>\<open>BasketballGameB\<close> carries its own name.\<close>

lemma lookup_B_field:
  "x \<in> score_fields \<Longrightarrow> class_lookup BasketballGameB x = Some (PyField \<lparr>field = x\<rparr>)"
  by (auto simp: score_fields_def BasketballGameB_def BasketballGameB_body_def
      named_descriptors_def NonNegativeField_default_def NonNegativeField_init_def)

lemma setattr_field:
  "class_lookup cls x = Some (PyField f) \<Longrightarrow>
   setattr_inst cls a x v =
     (if negative v then Raise (ValueError ''Positive values only!'') a else Done (a(field f \<mapsto> v)))"
  by (simp add: setattr_inst_def NonNegativeField_set_def)

lemma getattr_field:
  "class_lookup cls x = Some (PyField f) \<Longrightarrow>
   getattr_inst cls a x =
     (case a (field f) of None \<Rightarrow> Inl (KeyError (field f)) | Some v \<Rightarrow> Inr (PyNum v))"
  by (simp add: getattr_inst_def is_data_descriptor_def descr_get_def NonNegativeField_get_def
      split: option.splits)

lemma lookup_BasketballGame:
  "class_lookup BasketballGame ''points'' = Some (PyProp
     \<lparr>fget = Some BasketballGame_points, fset = Some BasketballGame_points_setter, fdel = None\<rparr>)"
  "class_lookup BasketballGame ''rebounds'' = Some (PyProp
     \<lparr>fget = Some BasketballGame_rebounds, fset = Some BasketballGame_rebounds_setter, fdel = None\<rparr>)"
  "class_lookup BasketballGame ''steals'' = Some (PyProp
     \<lparr>fget = Some BasketballGame_steals, fset = Some BasketballGame_steals_setter, fdel = None\<rparr>)"
  by (simp_all add: BasketballGame_def MyProperty_setter_def MyProperty_init_def)

lemma setattr_BasketballGame:
  "x \<in> score_fields \<Longrightarrow>
   setattr_inst BasketballGame a x v =
     (if negative v then Raise (ValueError ''Positive values only!'') a else Done (a(''_'' @ x \<mapsto> v)))"
  by (auto simp: score_fields_def setattr_inst_def lookup_BasketballGame MyProperty_set_def
      BasketballGame_points_setter_def BasketballGame_rebounds_setter_def
      BasketballGame_steals_setter_def)

lemma getattr_BasketballGame:
  "x \<in> score_fields \<Longrightarrow>
   getattr_inst BasketballGame a x =
     (case a (''_'' @ x) of None \<Rightarrow> Inl (AttributeError (''_'' @ x)) | Some v \<Rightarrow> Inr (PyNum v))"
  by (auto simp: score_fields_def getattr_inst_def lookup_BasketballGame MyProperty_get_def
      is_data_descriptor_def descr_get_def BasketballGame_points_def BasketballGame_rebounds_def
      BasketballGame_steals_def split: option.splits)

subsection \<open>The invariant of the stored values\<close>

lemma setattr_keeps_nonneg:
  assumes cls: "\<And>y. y \<in> score_fields \<Longrightarrow> class_lookup cls y = Some (PyField \<lparr>field = y\<rparr>)"
    and x: "x \<in> score_fields" and inv: "no_negative_fields a"
  shows "no_negative_fields (state_after (setattr_inst cls a x v))"
  using inv by (simp add: setattr_field [OF cls [OF x]] no_negative_fields_def state_after_def)

text \<open>A sequence of statements keeps what each of them keeps, also when one raises.\<close>

lemma then_do_keeps:
  assumes "P (state_after r)" and "\<And>s. r = Done s \<Longrightarrow> P (state_after (f s))"
  shows "P (state_after (then_do r f))"
  using assms by (cases r) (simp_all add: then_do_def state_after_def)

lemma init_nonneg:
  assumes cls: "\<And>y. y \<in> score_fields \<Longrightarrow> class_lookup cls y = Some (PyField \<lparr>field = y\<rparr>)"
  shows "no_negative_fields (state_after
      (then_do (setattr_inst cls Map.empty ''points'' p) (\<lambda>self.
       then_do (setattr_inst cls self ''rebounds'' r) (\<lambda>self.
       setattr_inst cls self ''steals'' s))))"
proof (rule then_do_keeps [where P = no_negative_fields])
  have e: "no_negative_fields Map.empty" by (simp add: no_negative_fields_def)
  show 1: "no_negative_fields (state_after (setattr_inst cls Map.empty ''points'' p))"
    by (rule setattr_keeps_nonneg [OF cls _ e]) (simp_all add: score_fields_def)
  fix a1 assume "setattr_inst cls Map.empty ''points'' p = Done a1"
  with 1 have a1: "no_negative_fields a1" by (simp add: state_after_def)
  show "no_negative_fields (state_after
      (then_do (setattr_inst cls a1 ''rebounds'' r) (\<lambda>self. setattr_inst cls self ''steals'' s)))"
  proof (rule then_do_keeps [where P = no_negative_fields])
    show 2: "no_negative_fields (state_after (setattr_inst cls a1 ''rebounds'' r))"
      by (rule setattr_keeps_nonneg [OF cls _ a1]) (simp_all add: score_fields_def)
    fix a2 assume "setattr_inst cls a1 ''rebounds'' r = Done a2"
    with 2 have a2: "no_negative_fields a2" by (simp add: state_after_def)
    show "no_negative_fields (state_after (setattr_inst cls a2 ''steals'' s))"
      by (rule setattr_keeps_nonneg [OF cls _ a2]) (simp_all add: score_fields_def)
  qed
qed

lemma reachable_nonneg:
  assumes cls: "\<And>y. y \<in> score_fields \<Longrightarrow> class_lookup cls y = Some (PyField \<lparr>field = y\<rparr>)"
    and init: "init = BasketballGameA_init \<or> init = BasketballGameB_init"
    and r: "reachable cls init a"
  shows "no_negative_fields a"
  using r
proof (induction rule: reachable.induct)
  case (constructed points rebounds steals a)
  from init have "no_negative_fields (state_after (init cls Map.empty points rebounds steals))"
    by (auto simp: BasketballGameA_init_def BasketballGameB_init_def intro: init_nonneg [OF cls])
  with constructed show ?case by (simp add: state_after_def)
next
  case (abandoned points rebounds steals e a)
  from init have "no_negative_fields (state_after (init cls Map.empty points rebounds steals))"
    by (auto simp: BasketballGameA_init_def BasketballGameB_init_def intro: init_nonneg [OF cls])
  with abandoned show ?case by (simp add: state_after_def)
next
  case (assigned a x v a')
  from setattr_keeps_nonneg [OF cls assigned(2) assigned.IH, of v] assigned(3)
  show ?case by (simp add: state_after_def)
next
  case (rejected a x v e a')
  from setattr_keeps_nonneg [OF cls rejected(2) rejected.IH, of v] rejected(3)
  show ?case by (simp add: state_after_def)
qed

text \<open>
  The claim C1 as it is worded, that every value stored for the three fields is
  \<^verbatim>\<open>>= 0\<close> because \<^verbatim>\<open>__set__\<close> only stores such values, fails for the float NaN:
  \<^verbatim>\<open>__set__\<close> tests \<^verbatim>\<open>value < 0\<close>, which NaN passes, so
  \<^verbatim>\<open>BasketballGameA(float('nan'), 0, 0)\<close> is built and stores NaN under \<^verbatim>\<open>points\<close>.
\<close>

theorem stored_fields_nonnegative_counterexample:
  "NonNegativeField_set (NonNegativeField_init ''points'') Map.empty NNaN
     = Done [''points'' \<mapsto> NNaN]
   \<and> reachable BasketballGameA BasketballGameA_init
       [''points'' \<mapsto> NNaN, ''rebounds'' \<mapsto> NInt 0, ''steals'' \<mapsto> NInt 0]
   \<and> ''points'' \<in> score_fields
   \<and> [''points'' \<mapsto> NNaN, ''rebounds'' \<mapsto> NInt 0, ''steals'' \<mapsto> NInt 0] ''points'' = Some NNaN
   \<and> \<not> nonnegative NNaN"
proof -
  let ?a = "[''points'' \<mapsto> NNaN, ''rebounds'' \<mapsto> NInt 0, ''steals'' \<mapsto> NInt 0]"
  have f: "''points'' \<in> score_fields" "''rebounds'' \<in> score_fields" "''steals'' \<in> score_fields"
    by (simp_all add: score_fields_def)
  have s: "NonNegativeField_set (NonNegativeField_init ''points'') Map.empty NNaN
     = Done [''points'' \<mapsto> NNaN]"
    by (simp add: NonNegativeField_set_def NonNegativeField_init_def NaN_neither)
  have "BasketballGameA_init BasketballGameA Map.empty NNaN (NInt 0) (NInt 0) = Done ?a"
    by (simp add: BasketballGameA_init_def then_do_def setattr_field [OF lookup_A_field] f
        NaN_neither negative_NInt)
  then have "reachable BasketballGameA BasketballGameA_init ?a"
    by (rule reachable.constructed)
  with s f(1) show ?thesis by (simp add: NaN_neither)
qed

text \<open>
  Claim C1, amended. Every instance of \<^verbatim>\<open>BasketballGameA\<close> or \<^verbatim>\<open>BasketballGameB\<close> reached
  through \<^verbatim>\<open>__init__\<close> and any sequence of assignments to \<^verbatim>\<open>points\<close>, \<^verbatim>\<open>rebounds\<close>
  and \<^verbatim>\<open>steals\<close> stores for these fields only values that are not negative
  (\<^verbatim>\<open>value < 0\<close> is false), since \<^verbatim>\<open>__set__\<close> stores a value only then. Every stored
  value other than NaN, so every integer, is \<^verbatim>\<open>>= 0\<close>.
\<close>

theorem stored_fields_nonnegative:
  assumes "reachable BasketballGameA BasketballGameA_init a
           \<or> reachable BasketballGameB BasketballGameB_init a"
    and "x \<in> score_fields" and "a x = Some v"
  shows "\<not> negative v \<and> (v \<noteq> NNaN \<longrightarrow> nonnegative v)
    \<and> (\<forall>i. v = NInt i \<longrightarrow> 0 \<le> i)"
proof -
  have "no_negative_fields a"
    using assms(1) reachable_nonneg [OF lookup_A_field] reachable_nonneg [OF lookup_B_field]
    by blast
  with assms(2,3) have "\<not> negative v" by (simp add: no_negative_fields_def)
  then show ?thesis by (auto simp: nonnegative_iff negative_NInt)
qed

text \<open>
  The instances of the notebook, \<^verbatim>\<open>BasketballGameA(points=100, rebounds=30, steals=10)\<close>
  and the same call of \<^verbatim>\<open>BasketballGameB\<close>, each after the rejected \<^verbatim>\<open>points = -5\<close>.
\<close>

theorem stored_fields_nonnegative_witness:
  "reachable BasketballGameA BasketballGameA_init
     [''points'' \<mapsto> NInt 100, ''rebounds'' \<mapsto> NInt 30, ''steals'' \<mapsto> NInt 10]
   \<and> reachable BasketballGameB BasketballGameB_init
     [''points'' \<mapsto> NInt 100, ''rebounds'' \<mapsto> NInt 30, ''steals'' \<mapsto> NInt 10]
   \<and> ''rebounds'' \<in> score_fields
   \<and> [''points'' \<mapsto> NInt 100, ''rebounds'' \<mapsto> NInt 30, ''steals'' \<mapsto> NInt 10] ''rebounds''
       = Some (NInt 30)
   \<and> \<not> negative (NInt 30) \<and> nonnegative (NInt 30)"
proof -
  let ?a = "[''points'' \<mapsto> NInt 100, ''rebounds'' \<mapsto> NInt 30, ''steals'' \<mapsto> NInt 10]"
  have f: "''points'' \<in> score_fields" "''rebounds'' \<in> score_fields" "''steals'' \<in> score_fields"
    by (simp_all add: score_fields_def)
  have "BasketballGameA_init BasketballGameA Map.empty (NInt 100) (NInt 30) (NInt 10) = Done ?a"
    by (simp add: BasketballGameA_init_def then_do_def setattr_field [OF lookup_A_field] f
        negative_NInt)
  then have c: "reachable BasketballGameA BasketballGameA_init ?a"
    by (rule reachable.constructed)
  have "setattr_inst BasketballGameA ?a ''points'' (NInt (- 5))
          = Raise (ValueError ''Positive values only!'') ?a"
    by (simp add: setattr_field [OF lookup_A_field] f negative_NInt)
  with c f(1) have r: "reachable BasketballGameA BasketballGameA_init ?a"
    by (rule reachable.rejected)
  have "BasketballGameB_init BasketballGameB Map.empty (NInt 100) (NInt 30) (NInt 10) = Done ?a"
    by (simp add: BasketballGameB_init_def then_do_def setattr_field [OF lookup_B_field] f
        negative_NInt)
  then have c': "reachable BasketballGameB BasketballGameB_init ?a"
    by (rule reachable.constructed)
  have "setattr_inst BasketballGameB ?a ''points'' (NInt (- 5))
          = Raise (ValueError ''Positive values only!'') ?a"
    by (simp add: setattr_field [OF lookup_B_field] f negative_NInt)
  with c' f(1) have r': "reachable BasketballGameB BasketballGameB_init ?a"
    by (rule reachable.rejected)
  have v: "?a ''rebounds'' = Some (NInt 30)" by simp
  from stored_fields_nonnegative [OF disjI1 [OF r] f(2) v]
    stored_fields_nonnegative [OF disjI2 [OF r'] f(2) v] r r' f(2) v
  show ?thesis by simp
qed

subsection \<open>Rejecting negative values\<close>

text \<open>
  Claim C2. Assigning \<open>v\<close> to a validated field, through \<^verbatim>\<open>NonNegativeField.__set__\<close> or
  through the \<^verbatim>\<open>points\<close>, \<^verbatim>\<open>rebounds\<close> and \<^verbatim>\<open>steals\<close> setters of \<^verbatim>\<open>BasketballGame\<close>,
  raises \<^verbatim>\<open>ValueError\<close> exactly when \<open>v < 0\<close>; for \<open>v \<ge> 0\<close> the assignment completes
  and stores \<open>v\<close>. In particular \<open>0\<close> is accepted. On integers \<open>v < 0\<close> and \<open>v \<ge> 0\<close>
  are the comparisons of the integers.
\<close>

theorem validators_reject_negative:
  "(raises_ValueError (NonNegativeField_set f a v) \<longleftrightarrow> negative v)
   \<and> (nonnegative v \<longrightarrow> NonNegativeField_set f a v = Done (a(field f \<mapsto> v)))
   \<and> NonNegativeField_set f a (NInt 0) = Done (a(field f \<mapsto> NInt 0))
   \<and> (class_lookup cls y = Some (PyField f) \<longrightarrow>
        (raises_ValueError (setattr_inst cls a y v) \<longleftrightarrow> negative v)
        \<and> (nonnegative v \<longrightarrow> setattr_inst cls a y v = Done (a(field f \<mapsto> v))))
   \<and> (\<forall>x \<in> score_fields.
        (raises_ValueError (setattr_inst BasketballGame a x v) \<longleftrightarrow> negative v)
        \<and> (nonnegative v \<longrightarrow> setattr_inst BasketballGame a x v = Done (a(''_'' @ x \<mapsto> v)))
        \<and> setattr_inst BasketballGame a x (NInt 0) = Done (a(''_'' @ x \<mapsto> NInt 0)))
   \<and> (raises_ValueError (BasketballGame_points_setter a v) \<longleftrightarrow> negative v)
   \<and> (raises_ValueError (BasketballGame_rebounds_setter a v) \<longleftrightarrow> negative v)
   \<and> (raises_ValueError (BasketballGame_steals_setter a v) \<longleftrightarrow> negative v)
   \<and> (negative (NInt i) \<longleftrightarrow> i < 0) \<and> (nonnegative (NInt i) \<longleftrightarrow> 0 \<le> i)"
  by (auto simp: NonNegativeField_set_def raises_ValueError_def setattr_BasketballGame
      setattr_field BasketballGame_points_setter_def BasketballGame_rebounds_setter_def
      BasketballGame_steals_setter_def nonnegative_iff negative_NInt)

theorem validators_reject_negative_witness:
  "raises_ValueError (NonNegativeField_set (NonNegativeField_init ''points'') Map.empty (NInt (- 5)))
   \<and> NonNegativeField_set (NonNegativeField_init ''points'') Map.empty (NInt 0)
       = Done [''points'' \<mapsto> NInt 0]
   \<and> raises_ValueError (setattr_inst BasketballGameA Map.empty ''points'' (NInt (- 5)))
   \<and> raises_ValueError (setattr_inst BasketballGame Map.empty ''steals'' (NInt (- 5)))
   \<and> setattr_inst BasketballGame Map.empty ''steals'' (NInt 0) = Done [''_steals'' \<mapsto> NInt 0]"
proof -
  have p: "''points'' \<in> score_fields" "''steals'' \<in> score_fields"
    by (simp_all add: score_fields_def)
  have l: "class_lookup BasketballGameA ''points'' = Some (PyField (NonNegativeField_init ''points''))"
    by (simp add: lookup_A_field [OF p(1)] NonNegativeField_init_def)
  from validators_reject_negative
    [of "NonNegativeField_init ''points''" Map.empty "NInt (- 5)" BasketballGameA "''points''" 0] l p
  show ?thesis
    by (auto simp: NonNegativeField_init_def negative_NInt)
qed

text \<open>
  \<^verbatim>\<open>BasketballGame.__init__\<close> goes through the three setters and then stores
  \<^verbatim>\<open>blocks\<close>, which no property guards. When a setter raises, the attributes assigned
  before it stay.
\<close>

lemma BasketballGame_init_runs:
  "BasketballGame_init BasketballGame Map.empty (NInt 100) (NInt 30) (NInt 10) (NInt (- 5))
     = Done [''_points'' \<mapsto> NInt 100, ''_rebounds'' \<mapsto> NInt 30, ''_steals'' \<mapsto> NInt 10, ''blocks'' \<mapsto> NInt (- 5)]"
  "BasketballGame_init BasketballGame Map.empty (NInt 100) (NInt (- 30)) (NInt 10) (NInt 5)
     = Raise (ValueError ''Positive values only!'') [''_points'' \<mapsto> NInt 100]"
proof -
  have b: "class_lookup BasketballGame ''blocks'' = None"
    by (simp add: BasketballGame_def)
  have f: "''points'' \<in> score_fields" "''rebounds'' \<in> score_fields" "''steals'' \<in> score_fields"
    by (simp_all add: score_fields_def)
  show "BasketballGame_init BasketballGame Map.empty (NInt 100) (NInt 30) (NInt 10) (NInt (- 5))
     = Done [''_points'' \<mapsto> NInt 100, ''_rebounds'' \<mapsto> NInt 30, ''_steals'' \<mapsto> NInt 10, ''blocks'' \<mapsto> NInt (- 5)]"
    by (simp add: BasketballGame_init_def then_do_def setattr_BasketballGame f negative_NInt)
      (simp add: setattr_inst_def b)
  show "BasketballGame_init BasketballGame Map.empty (NInt 100) (NInt (- 30)) (NInt 10) (NInt 5)
     = Raise (ValueError ''Positive values only!'') [''_points'' \<mapsto> NInt 100]"
    by (simp add: BasketballGame_init_def then_do_def setattr_BasketballGame f negative_NInt)
qed

subsection \<open>A rejected write\<close>

text \<open>
  Claim C8. An assignment of a negative value through \<^verbatim>\<open>NonNegativeField.__set__\<close> or a
  \<^verbatim>\<open>BasketballGame\<close> setter raises \<^verbatim>\<open>ValueError\<close> before anything is changed: the
  instance's \<^verbatim>\<open>__dict__\<close> after the failed assignment is the one before it, and a field
  that stored \<open>w\<close> still reads \<open>w\<close>.
\<close>

theorem rejected_write_changes_nothing:
  assumes "negative v"
  shows "raises_ValueError (NonNegativeField_set f a v)
    \<and> state_after (NonNegativeField_set f a v) = a
    \<and> (\<forall>w. a (field f) = Some w \<longrightarrow>
          NonNegativeField_get f (Some (state_after (NonNegativeField_set f a v))) owner = Inr w)
    \<and> (\<forall>x \<in> score_fields.
          raises_ValueError (setattr_inst BasketballGame a x v)
          \<and> state_after (setattr_inst BasketballGame a x v) = a
          \<and> (\<forall>w. a (''_'' @ x) = Some w \<longrightarrow>
                getattr_inst BasketballGame (state_after (setattr_inst BasketballGame a x v)) x
                  = Inr (PyNum w)))
    \<and> raises_ValueError (BasketballGame_points_setter a v)
    \<and> state_after (BasketballGame_points_setter a v) = a"
  using assms
  by (simp add: NonNegativeField_set_def NonNegativeField_get_def raises_ValueError_def
      state_after_def setattr_BasketballGame getattr_BasketballGame
      BasketballGame_points_setter_def)

theorem rejected_write_changes_nothing_witness:
  "state_after (NonNegativeField_set (NonNegativeField_init ''points'') [''points'' \<mapsto> NInt 100] (NInt (- 5)))
     = [''points'' \<mapsto> NInt 100]
   \<and> NonNegativeField_get (NonNegativeField_init ''points'')
        (Some (state_after
           (NonNegativeField_set (NonNegativeField_init ''points'') [''points'' \<mapsto> NInt 100] (NInt (- 5)))))
        ''BasketballGameA'' = Inr (NInt 100)
   \<and> state_after (setattr_inst BasketballGame [''_points'' \<mapsto> NInt 100] ''points'' (NInt (- 5)))
        = [''_points'' \<mapsto> NInt 100]
   \<and> getattr_inst BasketballGame
        (state_after (setattr_inst BasketballGame [''_points'' \<mapsto> NInt 100] ''points'' (NInt (- 5))))
        ''points'' = Inr (PyNum (NInt 100))"
proof -
  have n: "negative (NInt (- 5))"
    by (simp add: negative_NInt)
  from rejected_write_changes_nothing
      [OF n, of "NonNegativeField_init ''points''" "[''points'' \<mapsto> NInt 100]" "''BasketballGameA''"]
    rejected_write_changes_nothing
      [OF n, of "NonNegativeField_init ''points''" "[''_points'' \<mapsto> NInt 100]" "''BasketballGameA''"]
  show ?thesis
    by (auto simp: NonNegativeField_init_def score_fields_def)
qed

subsection \<open>Writing and reading back\<close>

text \<open>
  Claim C9. For an instance of a class that binds a \<^verbatim>\<open>NonNegativeField\<close> at \<open>x\<close> and for
  \<open>v \<ge> 0\<close>, the assignment \<^verbatim>\<open>a.x = v\<close> completes and reading \<^verbatim>\<open>a.x\<close> afterwards
  returns \<open>v\<close>: \<^verbatim>\<open>__get__\<close> reads the slot \<^verbatim>\<open>__set__\<close> wrote. Every other entry of
  the \<^verbatim>\<open>__dict__\<close> is unchanged, and so is what every field with another slot reads.
\<close>

theorem set_then_get:
  assumes "class_lookup cls x = Some (PyField f)" and "nonnegative v"
  shows "\<exists>a'. setattr_inst cls a x v = Done a'
      \<and> NonNegativeField_set f a v = Done a'
      \<and> getattr_inst cls a' x = Inr (PyNum v)
      \<and> NonNegativeField_get f (Some a') owner = Inr v
      \<and> (\<forall>k. k \<noteq> field f \<longrightarrow> a' k = a k)
      \<and> (\<forall>y g. class_lookup cls y = Some (PyField g) \<and> field g \<noteq> field f \<longrightarrow>
             getattr_inst cls a' y = getattr_inst cls a y)"
  using assms
  by (auto simp: setattr_field getattr_field NonNegativeField_set_def NonNegativeField_get_def
      nonnegative_iff)

theorem set_then_get_witness:
  "setattr_inst BasketballGameA [''points'' \<mapsto> NInt 100, ''rebounds'' \<mapsto> NInt 30] ''points'' (NInt 7)
     = Done [''points'' \<mapsto> NInt 7, ''rebounds'' \<mapsto> NInt 30]
   \<and> getattr_inst BasketballGameA [''points'' \<mapsto> NInt 7, ''rebounds'' \<mapsto> NInt 30] ''points''
       = Inr (PyNum (NInt 7))
   \<and> getattr_inst BasketballGameA [''points'' \<mapsto> NInt 7, ''rebounds'' \<mapsto> NInt 30] ''rebounds''
       = Inr (PyNum (NInt 30))"
proof -
  have f: "''points'' \<in> score_fields" "''rebounds'' \<in> score_fields"
    by (simp_all add: score_fields_def)
  have m: "[''points'' \<mapsto> NInt 100, ''rebounds'' \<mapsto> NInt 30](''points'' \<mapsto> NInt 7)
             = [''points'' \<mapsto> NInt 7, ''rebounds'' \<mapsto> NInt 30]"
    by (simp add: fun_upd_twist)
  have n: "nonnegative (NInt 7)"
    by (simp add: nonnegative_NInt)
  from set_then_get [OF lookup_A_field [OF f(1)] n,
      of "[''points'' \<mapsto> NInt 100, ''rebounds'' \<mapsto> NInt 30]" "''BasketballGameA''"]
  show ?thesis
    by (simp add: setattr_field [OF lookup_A_field] getattr_field [OF lookup_A_field] f m
        negative_NInt)
qed

section \<open>Properties of name mangling\<close>

lemma mangle_update: "mangle ''Mapping'' ''__update'' = ''_Mapping__update''"
  by (simp add: mangle_def is_private_def)

text \<open>The loop appends the items in order to whatever the list already holds.\<close>

lemma append_all_items:
  "self ''items_list'' = Some l \<Longrightarrow>
   append_all self xs = Done (self(''items_list'' \<mapsto> l @ xs))"
proof (induction xs arbitrary: self l)
  case Nil
  then show ?case by (simp add: fun_upd_idem)
next
  case (Cons item rest)
  have 1: "append_item self item = Done (self(''items_list'' \<mapsto> l @ [item]))"
    using Cons.prems by (simp add: append_item_def)
  have 2: "append_all (self(''items_list'' \<mapsto> l @ [item])) rest
       = Done ((self(''items_list'' \<mapsto> l @ [item]))(''items_list'' \<mapsto> (l @ [item]) @ rest))"
    by (rule Cons.IH) simp
  have 3: "(self(''items_list'' \<mapsto> l @ [item]))(''items_list'' \<mapsto> (l @ [item]) @ rest)
       = self(''items_list'' \<mapsto> l @ item # rest)"
    by simp
  show ?case
    by (simp only: append_all.simps then_do_def 1 2 3 effect.case)
qed

text \<open>
  The mangled name is bound in \<^verbatim>\<open>Mapping\<close> only, so both classes find the original
  \<^verbatim>\<open>update\<close> under it, while \<^verbatim>\<open>update\<close> itself resolves to the override in the subclass.
\<close>

lemma lookup_mangled:
  "class_lookup Mapping ''_Mapping__update'' = Some (Method Mapping_update_method)"
  "class_lookup MappingSubclass ''_Mapping__update'' = Some (Method Mapping_update_method)"
  by (simp_all add: Mapping_def MappingSubclass_def mangle_update)

lemma lookup_init:
  "class_lookup Mapping ''__init__'' = Some InitMethod"
  "class_lookup MappingSubclass ''__init__'' = Some InitMethod"
  by (simp_all add: Mapping_def MappingSubclass_def mangle_update)

lemma lookup_update:
  "class_lookup Mapping ''update'' = Some (Method Mapping_update_method)"
  "class_lookup MappingSubclass ''update'' = Some (Method MappingSubclass_update_method)"
  by (simp_all add: Mapping_def MappingSubclass_def)

lemma Mapping_init_items:
  "class_lookup cls (mangle ''Mapping'' ''__update'') = Some (Method Mapping_update_method) \<Longrightarrow>
   self (mangle ''Mapping'' ''__update'') = None \<Longrightarrow>
   Mapping_init cls self xs = Done (self(''items_list'' \<mapsto> xs))"
  by (simp add: Mapping_init_def Mapping_update_method_def Mapping_update_def mangle_update
      append_all_items [where l = "[]"])

text \<open>
  Claim C3. For every (finite) iterable \<open>xs\<close>, \<^verbatim>\<open>MappingSubclass(xs).items_list\<close> and
  \<^verbatim>\<open>Mapping(xs).items_list\<close> are the list of \<open>xs\<close>: \<^verbatim>\<open>__init__\<close> reaches the original
  \<^verbatim>\<open>update\<close> through the mangled name, although \<^verbatim>\<open>update\<close> of the subclass is another
  function, which does not even accept a single iterable.
\<close>

theorem override_keeps_init:
  "new_mapping MappingSubclass [xs] = Done [''items_list'' \<mapsto> xs]
   \<and> new_mapping Mapping [xs] = Done [''items_list'' \<mapsto> xs]
   \<and> class_lookup MappingSubclass (mangle ''Mapping'' ''__update'')
       = Some (Method Mapping_update_method)
   \<and> class_lookup MappingSubclass ''update'' = Some (Method MappingSubclass_update_method)
   \<and> MappingSubclass_update_method self [xs]
       = Raise (TypeError ''update() takes 3 positional arguments'') self"
  by (simp add: new_mapping_def lookup_init lookup_update Mapping_init_items lookup_mangled
      mangle_update MappingSubclass_update_method_def)

theorem override_keeps_init_witness:
  "new_mapping MappingSubclass [[VInt 1, VInt 2]] = Done [''items_list'' \<mapsto> [VInt 1, VInt 2]]
   \<and> new_mapping Mapping [[VInt 1, VInt 2]] = Done [''items_list'' \<mapsto> [VInt 1, VInt 2]]"
  using override_keeps_init [of "[VInt 1, VInt 2]" Map.empty] by blast

text \<open>The two runs of the notebook, with the lists it prints.\<close>

lemma notebook_Mapping_run:
  "then_do (new_mapping Mapping [[VInt 1, VInt 2]]) (\<lambda>m.
   then_do (call_method Mapping m ''update'' [[VInt 3, VInt 4]]) (\<lambda>m.
   call_method Mapping m ''_Mapping__update'' [[VInt 5, VInt 6]]))
   = Done [''items_list'' \<mapsto> [VInt 1, VInt 2, VInt 3, VInt 4, VInt 5, VInt 6]]"
  by (simp add: new_mapping_def lookup_init lookup_update Mapping_init_items lookup_mangled
      call_method_def Mapping_update_method_def Mapping_update_def then_do_def
      append_item_def mangle_update)

lemma notebook_MappingSubclass_run:
  "then_do (new_mapping MappingSubclass [[VInt 1, VInt 2]]) (\<lambda>m.
   then_do (call_method MappingSubclass m ''update''
              [[VInt 3, VInt 4], [VStr ''three'', VStr ''four'']]) (\<lambda>m.
   call_method MappingSubclass m ''_Mapping__update'' [[VInt 5, VInt 6]]))
   = Done [''items_list'' \<mapsto> [VInt 1, VInt 2, VTuple [VInt 3, VStr ''three''],
                               VTuple [VInt 4, VStr ''four''], VInt 5, VInt 6]]"
  by (simp add: new_mapping_def lookup_init lookup_update Mapping_init_items lookup_mangled
      call_method_def Mapping_update_method_def Mapping_update_def then_do_def
      MappingSubclass_update_method_def MappingSubclass_update_def
      append_item_def mangle_update)

section \<open>Properties of MyProperty\<close>

text \<open>
  Claim C4. For a class that binds \<open>p = MyProperty(fget, fset, fdel)\<close> at \<open>x\<close> and an
  instance \<open>a\<close> of it: reading \<^verbatim>\<open>a.x\<close> gives what \<open>fget a\<close> gives, \<^verbatim>\<open>a.x = v\<close> does
  what \<open>fset a v\<close> does, \<^verbatim>\<open>del a.x\<close> does what \<open>fdel a\<close> does, and reading \<open>x\<close> on
  the class returns \<open>p\<close> itself.
\<close>

theorem MyProperty_faithful:
  assumes "class_lookup cls x = Some (PyProp p)"
    and "p = MyProperty_init (Some g) (Some s) (Some d)"
  shows "getattr_inst cls a x = (case g a of Inl e \<Rightarrow> Inl e | Inr r \<Rightarrow> Inr (PyNum r))
    \<and> MyProperty_get p (Some a) (cname cls) = Inr (Outcome (g a))
    \<and> setattr_inst cls a x v = s a v
    \<and> MyProperty_set p a v = Inr (s a v)
    \<and> delattr_inst cls a x = d a
    \<and> MyProperty_delete p a = Inr (d a)
    \<and> getattr_class cls x = Inr (PyProp p)
    \<and> MyProperty_get p None (cname cls) = Inr (Descriptor p)"
  using assms
  by (simp add: getattr_inst_def setattr_inst_def delattr_inst_def getattr_class_def
      is_data_descriptor_def descr_get_def MyProperty_get_def MyProperty_set_def
      MyProperty_delete_def MyProperty_init_def)

theorem MyProperty_faithful_witness:
  "getattr_inst
     (PyClass ''A'' [(''x'', PyProp (MyProperty_init (Some A_x) (Some A_x_setter)
                                    (Some (\<lambda>self. Done (self(''_x'' := None))))))] None)
     [''_x'' \<mapsto> NInt 1] ''x'' = Inr (PyNum (NInt 1))
   \<and> setattr_inst
     (PyClass ''A'' [(''x'', PyProp (MyProperty_init (Some A_x) (Some A_x_setter)
                                    (Some (\<lambda>self. Done (self(''_x'' := None))))))] None)
     [''_x'' \<mapsto> NInt 1] ''x'' (NInt 2) = Done [''_x'' \<mapsto> NInt 2]
   \<and> delattr_inst
     (PyClass ''A'' [(''x'', PyProp (MyProperty_init (Some A_x) (Some A_x_setter)
                                    (Some (\<lambda>self. Done (self(''_x'' := None))))))] None)
     [''_x'' \<mapsto> NInt 1] ''x'' = Done Map.empty"
proof -
  let ?d = "\<lambda>self :: obj. Done (self(''_x'' := None))"
  let ?p = "MyProperty_init (Some A_x) (Some A_x_setter) (Some ?d)"
  let ?c = "PyClass ''A'' [(''x'', PyProp ?p)] None"
  have l: "class_lookup ?c ''x'' = Some (PyProp ?p)" by simp
  from MyProperty_faithful [OF l refl, of "[''_x'' \<mapsto> NInt 1]" "NInt 2"]
  show ?thesis by (simp add: A_x_def A_x_setter_def)
qed

text \<open>The run of the notebook on its class with the property \<open>x\<close>, which has no deleter.\<close>

lemma notebook_A_property_run:
  "getattr_class A_property ''x''
     = Inr (PyProp (MyProperty_init (Some A_x) (Some A_x_setter) None))"
  "A_init A_property Map.empty (NInt 1) = Done [''_x'' \<mapsto> NInt 1]"
  "getattr_inst A_property [''_x'' \<mapsto> NInt 1] ''x'' = Inr (PyNum (NInt 1))"
  "setattr_inst A_property [''_x'' \<mapsto> NInt 1] ''x'' (NInt 2) = Done [''_x'' \<mapsto> NInt 2]"
  "getattr_inst A_property [''_x'' \<mapsto> NInt 2] ''x'' = Inr (PyNum (NInt 2))"
  "delattr_inst A_property [''_x'' \<mapsto> NInt 2] ''x''
     = Raise (AttributeError ''can't delete attribute'') [''_x'' \<mapsto> NInt 2]"
  by (simp_all add: A_property_def A_init_def getattr_class_def getattr_inst_def setattr_inst_def
      delattr_inst_def descr_get_def is_data_descriptor_def MyProperty_get_def MyProperty_set_def
      MyProperty_delete_def MyProperty_setter_def MyProperty_init_def A_x_def A_x_setter_def)

text \<open>
  Claim C5. Each accessor of \<^verbatim>\<open>MyProperty\<close> raises its \<^verbatim>\<open>AttributeError\<close> exactly when
  its backing function is missing: \<^verbatim>\<open>__get__\<close> on an instance when \<open>fget\<close> is
  \<^verbatim>\<open>None\<close>, \<^verbatim>\<open>__set__\<close> when \<open>fset\<close> is, \<^verbatim>\<open>__delete__\<close> when \<open>fdel\<close> is. With the
  function present the wrapper raises nothing of its own (\<open>isl\<close> is false).
\<close>

theorem MyProperty_missing_function:
  "(MyProperty_get p (Some a) owner = Inl (AttributeError ''unreadable attribute'')
      \<longleftrightarrow> fget p = None)
   \<and> (isl (MyProperty_get p (Some a) owner) \<longleftrightarrow> fget p = None)
   \<and> (MyProperty_set p a v = Inl (AttributeError ''can't set attribute'') \<longleftrightarrow> fset p = None)
   \<and> (isl (MyProperty_set p a v) \<longleftrightarrow> fset p = None)
   \<and> (MyProperty_delete p a = Inl (AttributeError ''can't delete attribute'') \<longleftrightarrow> fdel p = None)
   \<and> (isl (MyProperty_delete p a) \<longleftrightarrow> fdel p = None)
   \<and> (class_lookup cls x = Some (PyProp q) \<and> fget q = None \<longrightarrow>
         getattr_inst cls b x = Inl (AttributeError ''unreadable attribute''))
   \<and> (class_lookup cls x = Some (PyProp q) \<and> fset q = None \<longrightarrow>
         setattr_inst cls b x w = Raise (AttributeError ''can't set attribute'') b)
   \<and> (class_lookup cls x = Some (PyProp q) \<and> fdel q = None \<longrightarrow>
         delattr_inst cls b x = Raise (AttributeError ''can't delete attribute'') b)"
  by (simp add: MyProperty_get_def MyProperty_set_def MyProperty_delete_def getattr_inst_def
      setattr_inst_def delattr_inst_def is_data_descriptor_def descr_get_def
      split: option.splits)

text \<open>
  A property without any function on a class, and the properties of the notebook's class
  with one function taken away.
\<close>

theorem MyProperty_missing_function_witness:
  "MyProperty_get (MyProperty_init None (Some A_x_setter) None :: (obj, number, error + number, obj effect, obj effect) MyProperty)
       (Some [''_x'' \<mapsto> NInt 1]) ''A''
     = Inl (AttributeError ''unreadable attribute'')
   \<and> \<not> isl (MyProperty_get (MyProperty_init (Some A_x) (Some A_x_setter) None :: (obj, number, error + number, obj effect, obj effect) MyProperty)
               (Some [''_x'' \<mapsto> NInt 1]) ''A'')
   \<and> MyProperty_set (MyProperty_init (Some A_x) None None :: (obj, number, error + number, obj effect, obj effect) MyProperty) [''_x'' \<mapsto> NInt 1] (NInt 2)
     = Inl (AttributeError ''can't set attribute'')
   \<and> MyProperty_delete (MyProperty_init (Some A_x) (Some A_x_setter) None :: (obj, number, error + number, obj effect, obj effect) MyProperty)
       [''_x'' \<mapsto> NInt 1]
     = Inl (AttributeError ''can't delete attribute'')
   \<and> getattr_inst (PyClass ''A'' [(''x'', PyProp (MyProperty_init None None None))] None)
       [''_x'' \<mapsto> NInt 1] ''x''
     = Inl (AttributeError ''unreadable attribute'')
   \<and> setattr_inst (PyClass ''A'' [(''x'', PyProp (MyProperty_init None None None))] None)
       [''_x'' \<mapsto> NInt 1] ''x'' (NInt 2)
     = Raise (AttributeError ''can't set attribute'') [''_x'' \<mapsto> NInt 1]
   \<and> delattr_inst (PyClass ''A'' [(''x'', PyProp (MyProperty_init None None None))] None)
       [''_x'' \<mapsto> NInt 1] ''x''
     = Raise (AttributeError ''can't delete attribute'') [''_x'' \<mapsto> NInt 1]"
proof -
  let ?e = "MyProperty_init None None None :: (obj, number, error + number, obj effect, obj effect) MyProperty"
  let ?c = "PyClass ''A'' [(''x'', PyProp ?e)] None"
  have l: "class_lookup ?c ''x'' = Some (PyProp ?e)"
    and n: "fget ?e = None" "fset ?e = None" "fdel ?e = None"
    by (simp_all add: MyProperty_init_def)
  from l n MyProperty_missing_function
      [of "MyProperty_init None (Some A_x_setter) None :: (obj, number, error + number, obj effect, obj effect) MyProperty"
          "[''_x'' \<mapsto> NInt 1]" "''A''" "NInt 2" ?c "''x''" ?e "[''_x'' \<mapsto> NInt 1]" "NInt 2"]
    MyProperty_missing_function
      [of "MyProperty_init (Some A_x) (Some A_x_setter) None :: (obj, number, error + number, obj effect, obj effect) MyProperty"
          "[''_x'' \<mapsto> NInt 1]" "''A''" "NInt 2" ?c "''x''" ?e "[''_x'' \<mapsto> NInt 1]" "NInt 2"]
    MyProperty_missing_function
      [of "MyProperty_init (Some A_x) None None :: (obj, number, error + number, obj effect, obj effect) MyProperty"
          "[''_x'' \<mapsto> NInt 1]" "''A''" "NInt 2" ?c "''x''" ?e "[''_x'' \<mapsto> NInt 1]" "NInt 2"]
  show ?thesis
    by (simp add: MyProperty_init_def)
qed

section \<open>Properties of MyClassmethod and MyStaticmethod\<close>

lemma lookup_A_methods:
  "class_lookup A_methods ''foo'' = Some (PyFun A_foo)"
  "class_lookup A_methods ''bar'' = Some (PyClassM (MyClassmethod_init A_bar))"
  "class_lookup A_methods ''baz'' = Some (PyStaticM (MyStaticmethod_init A_baz))"
  by (simp_all add: A_methods_def)

text \<open>
  The claim C6 as it is worded, for access through any instance, fails for an instance
  whose own \<^verbatim>\<open>__dict__\<close> has an entry \<open>bar\<close>, as after \<^verbatim>\<open>a.bar = 5\<close>.
  \<^verbatim>\<open>MyClassmethod\<close> defines \<^verbatim>\<open>__get__\<close> only, so the assignment goes to the instance and
  the entry comes first on reading: \<^verbatim>\<open>a.bar\<close> is \<open>5\<close>, which cannot be called, while
  \<^verbatim>\<open>A.bar()\<close> calls \<open>bar\<close> with the class.
\<close>

theorem MyClassmethod_binds_owner_counterexample:
  "class_lookup A_methods ''bar'' = Some (PyClassM (MyClassmethod_init A_bar))
   \<and> setattr_inst A_methods Map.empty ''bar'' (NInt 5) = Done [''bar'' \<mapsto> NInt 5]
   \<and> getattr_inst A_methods [''bar'' \<mapsto> NInt 5] ''bar'' = Inr (PyNum (NInt 5))
   \<and> call_attr (getattr_inst A_methods [''bar'' \<mapsto> NInt 5] ''bar'') [] []
       = Inl (TypeError ''object is not callable'')
   \<and> call_attr (getattr_class A_methods ''bar'') [] [] = Inr (ACls ''A'')"
  by (simp add: getattr_inst_def getattr_class_def setattr_inst_def lookup_A_methods
      is_data_descriptor_def descr_get_def call_attr_def MyClassmethod_get_def
      MyClassmethod_init_def A_bar_def A_methods_def)

text \<open>
  Claim C6, amended. \<^verbatim>\<open>MyClassmethod.__get__\<close> ignores the instance and returns a wrapper
  that calls the function with the owner class before the explicit arguments: what
  \<^verbatim>\<open>type(a).__dict__['x'].__get__(a, type(a))\<close> returns is the same for every \<open>a\<close>, and
  for \<^verbatim>\<open>None\<close>. So for a class that binds \<^verbatim>\<open>MyClassmethod(f)\<close> at \<open>x\<close>, calling \<open>x\<close>
  through the class and through any instance whose own \<^verbatim>\<open>__dict__\<close> has no entry \<open>x\<close>
  are the same call of \<open>f\<close>, with the class first.
\<close>

theorem MyClassmethod_binds_owner:
  "MyClassmethod_get m instance owner args kwargs = MyClassmethod.func m (owner # args) kwargs
   \<and> descr_get (PyClassM (MyClassmethod_init f)) inst (cname cls)
       = Inr (PyFun (\<lambda>args kwargs. f (ACls (cname cls) # args) kwargs))
   \<and> (class_lookup cls x = Some (PyClassM (MyClassmethod_init f)) \<and> a x = None \<longrightarrow>
         getattr_inst cls a x = getattr_class cls x
       \<and> call_attr (getattr_class cls x) args' kwargs' = f (ACls (cname cls) # args') kwargs'
       \<and> call_attr (getattr_inst cls a x) args' kwargs' = f (ACls (cname cls) # args') kwargs')"
  by (simp add: MyClassmethod_get_def MyClassmethod_init_def descr_get_def getattr_inst_def
      getattr_class_def is_data_descriptor_def call_attr_def)

theorem MyClassmethod_binds_owner_witness:
  "call_attr (getattr_class A_methods ''bar'') [] [] = Inr (ACls ''A'')
   \<and> call_attr (getattr_inst A_methods Map.empty ''bar'') [] [] = Inr (ACls ''A'')"
proof -
  have l: "class_lookup A_methods ''bar'' = Some (PyClassM (MyClassmethod_init A_bar))
           \<and> (Map.empty :: obj) ''bar'' = None"
    by (simp add: lookup_A_methods)
  have n: "A_bar (ACls (cname A_methods) # []) [] = Inr (ACls ''A'')"
    by (simp add: A_methods_def A_bar_def)
  from l MyClassmethod_binds_owner
    [of "MyClassmethod_init A_bar" None "ACls ''A''" "[]" "[]" A_bar None A_methods
        "''bar''" Map.empty "[]" "[]"]
  have "call_attr (getattr_class A_methods ''bar'') [] [] = A_bar (ACls (cname A_methods) # []) []
      \<and> call_attr (getattr_inst A_methods Map.empty ''bar'') [] []
          = A_bar (ACls (cname A_methods) # []) []"
    by blast
  then show ?thesis by (auto simp: n)
qed

text \<open>
  The claim C7 as it is worded, for retrieval from any instance, fails in the same way for
  an instance whose own \<^verbatim>\<open>__dict__\<close> has an entry \<open>baz\<close>, as after \<^verbatim>\<open>a.baz = 5\<close>:
  \<^verbatim>\<open>a.baz\<close> is \<open>5\<close> and not the function, while \<^verbatim>\<open>A.baz\<close> is the function.
\<close>

theorem MyStaticmethod_returns_function_counterexample:
  "class_lookup A_methods ''baz'' = Some (PyStaticM (MyStaticmethod_init A_baz))
   \<and> setattr_inst A_methods Map.empty ''baz'' (NInt 5) = Done [''baz'' \<mapsto> NInt 5]
   \<and> getattr_inst A_methods [''baz'' \<mapsto> NInt 5] ''baz'' = Inr (PyNum (NInt 5))
   \<and> call_attr (getattr_inst A_methods [''baz'' \<mapsto> NInt 5] ''baz'') [] []
       = Inl (TypeError ''object is not callable'')
   \<and> getattr_class A_methods ''baz'' = Inr (PyFun A_baz)
   \<and> call_attr (getattr_class A_methods ''baz'') [] [] = Inr (AStr ''nothing'')"
  by (simp add: getattr_inst_def getattr_class_def setattr_inst_def lookup_A_methods
      is_data_descriptor_def descr_get_def call_attr_def MyStaticmethod_get_def
      MyStaticmethod_init_def A_baz_def)

text \<open>
  Claim C7, amended. \<^verbatim>\<open>MyStaticmethod(f).__get__(i, c)\<close> is \<open>f\<close> for every instance
  \<open>i\<close> (\<^verbatim>\<open>None\<close> included) and every owner \<open>c\<close>: wrapping and then accessing gives
  \<open>f\<close> back. So the attribute read from the class, or from any instance whose own
  \<^verbatim>\<open>__dict__\<close> has no entry of that name, is \<open>f\<close>, and calling it passes the explicit
  arguments only.
\<close>

theorem MyStaticmethod_returns_function:
  "MyStaticmethod_get (MyStaticmethod_init h) instance owner = h
   \<and> MyStaticmethod_get m instance owner = MyStaticmethod.func m
   \<and> descr_get (PyStaticM (MyStaticmethod_init f)) inst (cname cls) = Inr (PyFun f)
   \<and> (class_lookup cls x = Some (PyStaticM (MyStaticmethod_init f)) \<and> a x = None \<longrightarrow>
         getattr_class cls x = Inr (PyFun f)
       \<and> getattr_inst cls a x = Inr (PyFun f)
       \<and> call_attr (getattr_class cls x) args kwargs = f args kwargs
       \<and> call_attr (getattr_inst cls a x) args kwargs = f args kwargs)"
  by (simp add: MyStaticmethod_get_def MyStaticmethod_init_def descr_get_def getattr_inst_def
      getattr_class_def is_data_descriptor_def call_attr_def)

theorem MyStaticmethod_returns_function_witness:
  "getattr_class A_methods ''baz'' = Inr (PyFun A_baz)
   \<and> getattr_inst A_methods Map.empty ''baz'' = Inr (PyFun A_baz)
   \<and> call_attr (getattr_class A_methods ''baz'') [] [] = Inr (AStr ''nothing'')
   \<and> call_attr (getattr_inst A_methods Map.empty ''baz'') [] [] = Inr (AStr ''nothing'')"
proof -
  have l: "class_lookup A_methods ''baz'' = Some (PyStaticM (MyStaticmethod_init A_baz))
           \<and> (Map.empty :: obj) ''baz'' = None"
    by (simp add: lookup_A_methods)
  have n: "A_baz [] [] = Inr (AStr ''nothing'')"
    by (simp add: A_baz_def)
  from l MyStaticmethod_returns_function
    [of A_baz None "''A''" "MyStaticmethod_init A_baz" A_baz None A_methods "''baz''"
        Map.empty "[]" "[]"]
  have "getattr_class A_methods ''baz'' = Inr (PyFun A_baz)
      \<and> getattr_inst A_methods Map.empty ''baz'' = Inr (PyFun A_baz)
      \<and> call_attr (getattr_class A_methods ''baz'') [] [] = A_baz [] []
      \<and> call_attr (getattr_inst A_methods Map.empty ''baz'') [] [] = A_baz [] []"
    by blast
  then show ?thesis by (auto simp: n)
qed

text \<open>A plain function of the class binds the instance it is read from.\<close>

lemma instance_method_binds_self:
  "call_attr (getattr_inst A_methods a ''foo'') [] []
     = (if a ''foo'' = None then Inr (AObj a) else Inl (TypeError ''object is not callable''))"
  by (auto simp: getattr_inst_def lookup_A_methods is_data_descriptor_def descr_get_def
      call_attr_def A_foo_def)

section \<open>BasketballGameA and BasketballGameB agree\<close>

lemma run_same:
  "\<forall>op \<in> set ops. attr_of op \<in> score_fields \<Longrightarrow>
   run BasketballGameA a ops = run BasketballGameB a ops"
proof (induction ops arbitrary: a)
  case Nil
  show ?case by simp
next
  case (Cons op ops)
  then have x: "attr_of op \<in> score_fields"
    and rest: "\<And>a'. run BasketballGameA a' ops = run BasketballGameB a' ops"
    by simp_all
  show ?case
  proof (cases op)
    case (Read x)
    with x rest show ?thesis
      by (simp add: getattr_field [OF lookup_A_field] getattr_field [OF lookup_B_field])
  next
    case (Write x v)
    with x rest show ?thesis
      by (simp add: setattr_field [OF lookup_A_field] setattr_field [OF lookup_B_field])
  qed
qed

lemma init_same:
  "BasketballGameA_init BasketballGameA a p r s = BasketballGameB_init BasketballGameB a p r s"
proof -
  have f: "''points'' \<in> score_fields" "''rebounds'' \<in> score_fields" "''steals'' \<in> score_fields"
    by (simp_all add: score_fields_def)
  show ?thesis
    unfolding BasketballGameA_init_def BasketballGameB_init_def
    by (simp only: setattr_field [OF lookup_A_field [OF f(1)]] setattr_field [OF lookup_A_field [OF f(2)]]
        setattr_field [OF lookup_A_field [OF f(3)]] setattr_field [OF lookup_B_field [OF f(1)]]
        setattr_field [OF lookup_B_field [OF f(2)]] setattr_field [OF lookup_B_field [OF f(3)]])
qed

text \<open>
  Claim C10. \<^verbatim>\<open>named_descriptors\<close> gives each field of \<^verbatim>\<open>BasketballGameB\<close> the name it
  is bound to, which is the name \<^verbatim>\<open>BasketballGameA\<close> spells out. So a construction
  followed by any sequence of reads and writes of \<^verbatim>\<open>points\<close>, \<^verbatim>\<open>rebounds\<close> and
  \<^verbatim>\<open>steals\<close> shows the same values and the same exceptions on both classes.
\<close>

theorem A_and_B_equivalent:
  assumes "\<forall>op \<in> set ops. attr_of op \<in> score_fields"
  shows "session BasketballGameA BasketballGameA_init p r s ops
           = session BasketballGameB BasketballGameB_init p r s ops
    \<and> (\<forall>x \<in> score_fields.
          class_lookup BasketballGameB x = Some (PyField (NonNegativeField_init x))
          \<and> class_lookup BasketballGameB x = class_lookup BasketballGameA x)"
  using run_same [OF assms]
  by (simp add: session_def init_same lookup_A_field lookup_B_field NonNegativeField_init_def
      split: effect.splits)

theorem A_and_B_equivalent_witness:
  "session BasketballGameB BasketballGameB_init (NInt 100) (NInt 30) (NInt 10)
     [Read ''points'', Read ''rebounds'', Write ''points'' (NInt (- 5)), Read ''points'']
   = [Constructed, Got (Inr (PyNum (NInt 100))), Got (Inr (PyNum (NInt 30))),
      Raised (ValueError ''Positive values only!''), Got (Inr (PyNum (NInt 100)))]
   \<and> session BasketballGameA BasketballGameA_init (NInt 100) (NInt 30) (NInt 10)
     [Read ''points'', Read ''rebounds'', Write ''points'' (NInt (- 5)), Read ''points'']
   = [Constructed, Got (Inr (PyNum (NInt 100))), Got (Inr (PyNum (NInt 30))),
      Raised (ValueError ''Positive values only!''), Got (Inr (PyNum (NInt 100)))]"
proof -
  let ?ops = "[Read ''points'', Read ''rebounds'', Write ''points'' (NInt (- 5)), Read ''points'']"
  have f: "''points'' \<in> score_fields" "''rebounds'' \<in> score_fields" "''steals'' \<in> score_fields"
    by (simp_all add: score_fields_def)
  have h: "\<forall>op \<in> set ?ops. attr_of op \<in> score_fields"
    by (simp add: f)
  have a: "session BasketballGameA BasketballGameA_init (NInt 100) (NInt 30) (NInt 10) ?ops
    = [Constructed, Got (Inr (PyNum (NInt 100))), Got (Inr (PyNum (NInt 30))),
       Raised (ValueError ''Positive values only!''), Got (Inr (PyNum (NInt 100)))]"
    by (simp add: session_def BasketballGameA_init_def then_do_def f negative_NInt
        setattr_field [OF lookup_A_field] getattr_field [OF lookup_A_field])
  from A_and_B_equivalent [OF h, of "NInt 100" "NInt 30" "NInt 10"]
  have "session BasketballGameA BasketballGameA_init (NInt 100) (NInt 30) (NInt 10) ?ops
           = session BasketballGameB BasketballGameB_init (NInt 100) (NInt 30) (NInt 10) ?ops"
    by blast
  with a show ?thesis by simp
qed

text \<open>
  Without the decorator the three fields share the slot named by the empty string, and
  \<^verbatim>\<open>points\<close> reads the value stored last.
\<close>

lemma undecorated_B_differs:
  "session BasketballGameB_body BasketballGameB_init (NInt 100) (NInt 30) (NInt 10) [Read ''points'']
     = [Constructed, Got (Inr (PyNum (NInt 10)))]"
  by (simp add: session_def BasketballGameB_init_def then_do_def setattr_inst_def
      getattr_inst_def BasketballGameB_body_def NonNegativeField_default_def
      NonNegativeField_init_def NonNegativeField_set_def NonNegativeField_get_def
      is_data_descriptor_def descr_get_def negative_NInt)

end
